theory Spec2Isabelle
  imports Main
begin

section \<open>The tiered credential lifecycle manager (ZyloClient)\<close>

text \<open>
  A shallow embedding of the class \<open>ZyloClient\<close>: its four mutable fields, the three
  \<open>localStorage\<close> slots it writes, the session of the identity provider client it binds
  tokens into, and the timer table of the JavaScript runtime. Every method is a function
  from the state before the call to the state after it; an \<open>async\<close> method that can reject
  returns its outcome next to the state. What the network and the identity provider answer
  during one call is an argument of the call (\<open>env\<close>). A call or a timer callback runs to
  completion before the next one starts; each awaited round trip moves the clock on by
  \<open>elapsed\<close> milliseconds, and a timer fires at its due time.

  Numbers are integers: timestamps are epoch milliseconds, and the expiry slot of the storage
  is represented by the integer whose decimal rendering \<open>toString\<close> writes and \<open>parseInt\<close>
  reads back. The tier tag slot holds a \<open>TokenType\<close>, the only values the class writes there.
  \<open>supabaseClient.auth.setSession\<close>, \<open>signOut\<close> and \<open>getSession\<close> report failure in the
  \<open>error\<close> field of their result, which the class never reads; they do not reject.
  \<open>setToken\<close> calls \<open>setSession\<close> with an empty refresh token: whether the client takes
  such a session is the client's answer (\<open>setSession_accepted\<close>; the auth client of
  supabase-js refuses it), so the state keeps apart the token last handed to \<open>setSession\<close>
  (\<open>offered_token\<close>) and the session the client holds (\<open>session\<close>).
\<close>

subsection \<open>Data\<close>

datatype TokenType = FALLBACK_ANON | SCOPED_ANON | USER_SCOPED

record TokenResponse =
  access_token :: string
  expires_in :: int

record ZyloConfig =
  supabaseUrl :: string
  supabaseAnonKey :: string
  controlPlaneUrl :: string
  tenantId :: string
  projectId :: string
  signedAppContext :: "string option"

datatype js_error = JsError (err_name: string) (err_message: string)

datatype 'a res = Ok 'a | Throw js_error

text \<open>The two callbacks the class hands to \<open>setTimeout\<close>.\<close>

datatype timer_kind = Renewal | Upgrade

text \<open>The calls that leave the process, in the order they are issued.\<close>

datatype call =
  EnsureTableFetch | BootFetch | TenantExchangeFetch | SignupFetch
  | IdpSignIn | IdpSignUp | IdpSignOut

record state =
  config :: ZyloConfig
  currentTokenType :: TokenType
  tokenExpiry :: "int option"
  reexchangeTimer :: "nat option"
  upgradeTimer :: "nat option"
  stored_token :: "string option"
  stored_expiry :: "int option"
  stored_type :: "TokenType option"
  session :: "string option"
  offered_token :: "string option"
  clock :: int
  timers :: "(nat \<times> timer_kind \<times> int) list"
  next_timer :: nat
  calls :: "call list"

text \<open>
  What \<open>fetch\<close> settles to: a rejection (network error or timeout) with the error's name and
  message, or a response with its status, status text, body text and the result of
  \<open>res.json()\<close> (\<open>Inl\<close> when the body does not parse).
\<close>

datatype 'j fetched =
  Rejected string string
  | Responded nat string string "js_error + 'j"

datatype signin_result = SignInError js_error | SignInData "string option"

record signup_result =
  su_error :: "js_error option"
  su_user :: bool
  su_session :: "(string \<times> int option) option"

record env =
  elapsed :: nat
  setSession_accepted :: bool
  boot_fetch :: "TokenResponse fetched"
  exchange_fetch :: "TokenResponse fetched"
  signup_fetch :: "string option fetched"
  signIn :: signin_result
  supaSignUp :: signup_result

subsection \<open>Strings\<close>

fun starts_with :: "string \<Rightarrow> string \<Rightarrow> bool" where
  "starts_with _ [] = True"
| "starts_with [] (_ # _) = False"
| "starts_with (x # xs) (y # ys) = (x = y \<and> starts_with xs ys)"

text \<open>\<open>haystack.includes(needle)\<close>.\<close>

fun str_includes :: "string \<Rightarrow> string \<Rightarrow> bool" where
  "str_includes [] needle = (needle = [])"
| "str_includes (x # xs) needle = (starts_with (x # xs) needle \<or> str_includes xs needle)"

definition digit :: "nat \<Rightarrow> char" where
  "digit n = ''0123456789'' ! (n mod 10)"

function show_nat :: "nat \<Rightarrow> string" where
  "show_nat n = (if n < 10 then [digit n] else show_nat (n div 10) @ [digit n])"
  by pat_completeness auto
termination
  by (relation "measure id") auto

declare show_nat.simps [simp del]

subsection \<open>The runtime: timers, requests, the constructor\<close>

text \<open>
  \<open>setTimeout\<close> of a browser takes its delay as a signed 32-bit integer (the conversion
  wraps modulo 4294967296) and treats a negative one as 0: a delay from 2147483648 up to
  4294967295 milliseconds fires at once.
\<close>

definition to_int32 :: "int \<Rightarrow> int" where
  "to_int32 d = (d + 2147483648) mod 4294967296 - 2147483648"

definition setTimeout :: "timer_kind \<Rightarrow> int \<Rightarrow> state \<Rightarrow> nat \<times> state" where
  "setTimeout k delay s =
     (next_timer s,
      s\<lparr>timers := timers s @ [(next_timer s, k, clock s + max 0 (to_int32 delay))],
        next_timer := Suc (next_timer s)\<rparr>)"

definition clearTimeout :: "nat \<Rightarrow> state \<Rightarrow> state" where
  "clearTimeout i s = s\<lparr>timers := filter (\<lambda>t. fst t \<noteq> i) (timers s)\<rparr>"

text \<open>An awaited round trip: the call is recorded and the clock moves on.\<close>

definition request :: "call \<Rightarrow> nat \<Rightarrow> state \<Rightarrow> state" where
  "request c d s = s\<lparr>calls := calls s @ [c], clock := clock s + int d\<rparr>"

definition ok :: "nat \<Rightarrow> bool" where
  "ok st = (200 \<le> st \<and> st \<le> 299)"

text \<open>
  The constructor: \<open>currentTokenType = 'FALLBACK_ANON'\<close>, \<open>tokenExpiry = null\<close>, both timer
  fields \<open>null\<close>. The storage, the clock and the next timer id (a positive integer in a
  browser) are those of the page the instance is created in.
\<close>

definition new_client ::
  "ZyloConfig \<Rightarrow> string option \<Rightarrow> int option \<Rightarrow> TokenType option \<Rightarrow> int \<Rightarrow> nat \<Rightarrow> state" where
  "new_client cfg tok ex ty now n =
     \<lparr>config = cfg, currentTokenType = FALLBACK_ANON, tokenExpiry = None,
      reexchangeTimer = None, upgradeTimer = None,
      stored_token = tok, stored_expiry = ex, stored_type = ty,
      session = None, offered_token = None, clock = now, timers = [], next_timer = Suc n, calls = []\<rparr>"

subsection \<open>Private methods\<close>

text \<open>
  \<open>supabaseClient.auth.setSession({access_token: token, refresh_token: ''})\<close>, result unread.
\<close>

definition setSession :: "env \<Rightarrow> string \<Rightarrow> state \<Rightarrow> state" where
  "setSession e token s =
     (let s0 = s\<lparr>offered_token := Some token\<rparr> in
      if setSession_accepted e then s0\<lparr>session := Some token\<rparr> else s0)"

definition setToken :: "env \<Rightarrow> string \<Rightarrow> int option \<Rightarrow> state \<Rightarrow> state" where
  "setToken e token expiresIn s =
     (let s1 = setSession e token s in
      case expiresIn of
        Some e \<Rightarrow>
          (let expiryTime = clock s1 + e * 1000 in
           s1\<lparr>tokenExpiry := Some expiryTime,
              stored_token := Some token,
              stored_expiry := Some expiryTime,
              stored_type := Some (currentTokenType s1)\<rparr>)
      | None \<Rightarrow>
          s1\<lparr>tokenExpiry := None,
             stored_token := None, stored_expiry := None, stored_type := None\<rparr>)"

definition loadStoredToken :: "state \<Rightarrow> (string \<times> int \<times> TokenType) option" where
  "loadStoredToken s =
     (case stored_token s of
        None \<Rightarrow> None
      | Some token \<Rightarrow>
          (case stored_expiry s of
             None \<Rightarrow> None
           | Some expiry \<Rightarrow>
               (case stored_type s of
                  None \<Rightarrow> None
                | Some ty \<Rightarrow> if token = [] then None else Some (token, expiry, ty))))"

definition isTokenExpired :: "int option \<Rightarrow> state \<Rightarrow> bool" where
  "isTokenExpired expiry s =
     (case (case expiry of Some e \<Rightarrow> Some e | None \<Rightarrow> tokenExpiry s) of
        None \<Rightarrow> False
      | Some expiryTime \<Rightarrow> if expiryTime = 0 then False else expiryTime \<le> clock s)"

definition clearReexchangeTimer :: "state \<Rightarrow> state" where
  "clearReexchangeTimer s =
     (case reexchangeTimer s of
        None \<Rightarrow> s
      | Some i \<Rightarrow> if i = 0 then s else (clearTimeout i s)\<lparr>reexchangeTimer := None\<rparr>)"

definition clearUpgradeTimer :: "state \<Rightarrow> state" where
  "clearUpgradeTimer s =
     (case upgradeTimer s of
        None \<Rightarrow> s
      | Some i \<Rightarrow> if i = 0 then s else (clearTimeout i s)\<lparr>upgradeTimer := None\<rparr>)"

definition scheduleReexchange :: "state \<Rightarrow> state" where
  "scheduleReexchange s =
     (let s1 = clearReexchangeTimer s in
      case tokenExpiry s1 of
        None \<Rightarrow> s1
      | Some expiry \<Rightarrow>
          if expiry = 0 then s1
          else
            (let renewAt = expiry - 2 * 60 * 1000;
                 delay = max 0 (renewAt - clock s1);
                 (i, s2) = setTimeout Renewal delay s1
             in s2\<lparr>reexchangeTimer := Some i\<rparr>))"

definition scheduleUpgradeAttempt :: "state \<Rightarrow> state" where
  "scheduleUpgradeAttempt s =
     (let s1 = clearUpgradeTimer s;
          (i, s2) = setTimeout Upgrade (5 * 60 * 1000) s1
      in s2\<lparr>upgradeTimer := Some i\<rparr>)"

definition exchangeForScopedAnonToken :: "env \<Rightarrow> state \<Rightarrow> TokenResponse res \<times> state" where
  "exchangeForScopedAnonToken e s =
     (let s1 = request BootFetch (elapsed e) s in
      case boot_fetch e of
        Rejected n m \<Rightarrow> (Throw (JsError ''Error'' ''Control Plane unreachable''), s1)
      | Responded st stText errorText js \<Rightarrow>
          if \<not> ok st then
            (Throw (JsError ''Error''
               (''CP /api/supabase/boot failed: '' @ show_nat st @ '' '' @ stText
                  @ '' - '' @ errorText)), s1)
          else (case js of Inl err \<Rightarrow> (Throw err, s1) | Inr r \<Rightarrow> (Ok r, s1)))"

definition exchangeForTenantUserScopedToken ::
  "env \<Rightarrow> string \<Rightarrow> state \<Rightarrow> TokenResponse res \<times> state" where
  "exchangeForTenantUserScopedToken e userToken s =
     (let s1 = request TenantExchangeFetch (elapsed e) s in
      case exchange_fetch e of
        Rejected n m \<Rightarrow>
          (Throw (JsError ''Error'' ''Unable to complete authentication. Please try again.''), s1)
      | Responded st stText errorText js \<Rightarrow>
          if \<not> ok st then
            (Throw (JsError ''Error''
               (''CP /api/supabase/tenant-users/exchange-token failed: '' @ show_nat st
                  @ '' '' @ stText @ '' - '' @ errorText)), s1)
          else (case js of Inl err \<Rightarrow> (Throw err, s1) | Inr r \<Rightarrow> (Ok r, s1)))"

text \<open>
  \<open>ensureTenantUsersTableExists\<close> is started and not awaited; whatever it settles to is
  swallowed by the \<open>.catch\<close> at its call site. Only the request it issues is visible.
\<close>

definition ensureTenantUsersTableExists :: "state \<Rightarrow> state" where
  "ensureTenantUsersTableExists s = request EnsureTableFetch 0 s"

subsection \<open>Public methods\<close>

text \<open>
  The test \<open>stored && !this.isTokenExpired(stored.expiry)\<close> at the head of \<open>boot\<close>: the
  stored record when \<open>boot\<close> restores it, \<open>None\<close> when it goes on to the exchange.
\<close>

definition restorable :: "state \<Rightarrow> (string \<times> int \<times> TokenType) option" where
  "restorable s =
     (case loadStoredToken s of
        None \<Rightarrow> None
      | Some stored \<Rightarrow>
          if \<not> isTokenExpired (Some (fst (snd stored))) s then Some stored else None)"

definition boot :: "env \<Rightarrow> state \<Rightarrow> unit res \<times> state" where
  "boot e s =
     (let s0 = ensureTenantUsersTableExists s in
      case restorable s0 of
        Some (token, expiry, ty) \<Rightarrow>
          (let s1 = setToken e token None s0;
               s2 = s1\<lparr>currentTokenType := ty\<rparr>;
               s3 = s2\<lparr>tokenExpiry := Some expiry\<rparr>
           in (Ok (), scheduleReexchange s3))
      | None \<Rightarrow>
          (case exchangeForScopedAnonToken e s0 of
             (Ok tokenResponse, s1) \<Rightarrow>
               (let s2 = setToken e (access_token tokenResponse)
                           (Some (expires_in tokenResponse)) s1;
                    s3 = s2\<lparr>currentTokenType := SCOPED_ANON\<rparr>
                in (Ok (), scheduleReexchange s3))
           | (Throw err, s1) \<Rightarrow>
               (let s2 = setToken e (supabaseAnonKey (config s1)) None s1;
                    s3 = s2\<lparr>currentTokenType := FALLBACK_ANON\<rparr>
                in (Ok (), scheduleUpgradeAttempt s3))))"

definition login :: "env \<Rightarrow> string \<Rightarrow> string \<Rightarrow> state \<Rightarrow> unit res \<times> state" where
  "login e email password s =
     (let s0 = request IdpSignIn (elapsed e) s in
      case signIn e of
        SignInError err \<Rightarrow> (Throw err, s0)
      | SignInData tok \<Rightarrow>
          (let s1 = s0\<lparr>session := tok\<rparr> in
           case tok of
             None \<Rightarrow> (Throw (JsError ''Error'' ''No user token returned from Supabase''), s1)
           | Some supabaseUserToken \<Rightarrow>
               if supabaseUserToken = [] then
                 (Throw (JsError ''Error'' ''No user token returned from Supabase''), s1)
               else
                 (case exchangeForTenantUserScopedToken e supabaseUserToken s1 of
                    (Ok tokenResponse, s2) \<Rightarrow>
                      (let s3 = setToken e (access_token tokenResponse)
                                  (Some (expires_in tokenResponse)) s2;
                           s4 = s3\<lparr>currentTokenType := USER_SCOPED\<rparr>
                       in (Ok (), scheduleReexchange s4))
                  | (Throw err, s2) \<Rightarrow> (Ok (), s2))))"

definition logout :: "env \<Rightarrow> state \<Rightarrow> unit res \<times> state" where
  "logout e s =
     (let s0 = (request IdpSignOut (elapsed e) s)\<lparr>session := None\<rparr>;
          s1 = clearReexchangeTimer s0;
          s2 = clearUpgradeTimer s1
      in boot e s2)"

definition cleanup :: "state \<Rightarrow> state" where
  "cleanup s = clearUpgradeTimer (clearReexchangeTimer s)"

text \<open>
  How the inner \<open>try\<close> block of \<open>signUp\<close> (the attempt on the dedicated endpoint) ends: the
  method has returned, control falls out of the block, or an error is thrown inside it.
\<close>

datatype primary_outcome = Returned | Fell | Threw js_error

definition signUp_primary ::
  "env \<Rightarrow> string \<Rightarrow> string \<Rightarrow> state \<Rightarrow> primary_outcome \<times> state" where
  "signUp_primary e email password s =
     (let s0 = request SignupFetch (elapsed e) s in
      case signup_fetch e of
        Rejected n m \<Rightarrow> (Threw (JsError n m), s0)
      | Responded st stText bodyText js \<Rightarrow>
          if ok st then
            (case login e email password s0 of
               (Ok u, s1) \<Rightarrow> (Returned, s1)
             | (Throw err, s1) \<Rightarrow> (Threw err, s1))
          else if st = 404 then (Fell, s0)
          else
            (let errorData = (case js of Inl err \<Rightarrow> Some stText | Inr d \<Rightarrow> d) in
             (Threw (JsError ''Error''
                (case errorData of
                   None \<Rightarrow> ''Signup failed: '' @ show_nat st
                 | Some msg \<Rightarrow> if msg = [] then ''Signup failed: '' @ show_nat st else msg)),
              s0)))"

text \<open>The \<open>catch (networkError)\<close> of the inner block: \<open>True\<close> when the error is thrown again.\<close>

definition rethrown :: "js_error \<Rightarrow> bool" where
  "rethrown networkError =
     (if err_name networkError = ''AbortError'' then False
      else if str_includes (err_message networkError) ''Signup failed'' then True
      else False)"

definition signUp_fallback ::
  "env \<Rightarrow> string \<Rightarrow> string \<Rightarrow> state \<Rightarrow> unit res \<times> state" where
  "signUp_fallback e email password s =
     (let s0 = request IdpSignUp (elapsed e) s in
      case su_error (supaSignUp e) of
        Some signUpError \<Rightarrow> (Throw signUpError, s0)
      | None \<Rightarrow>
          if \<not> su_user (supaSignUp e) then
            (Throw (JsError ''Error'' ''Signup succeeded but no user data returned''), s0)
          else
            (case su_session (supaSignUp e) of
               Some (tok, expIn) \<Rightarrow>
                 (let s1 = setToken e tok
                             (case expIn of
                                None \<Rightarrow> None
                              | Some n \<Rightarrow> if n = 0 then None else Some n)
                             (s0\<lparr>session := Some tok\<rparr>);
                      s2 = s1\<lparr>currentTokenType := USER_SCOPED\<rparr>
                  in (Ok (), scheduleReexchange s2))
             | None \<Rightarrow> login e email password s0))"

text \<open>The body of the outer \<open>try\<close> block of \<open>signUp\<close>.\<close>

definition signUp_try :: "env \<Rightarrow> string \<Rightarrow> string \<Rightarrow> state \<Rightarrow> unit res \<times> state" where
  "signUp_try e email password s =
     (case signUp_primary e email password s of
        (Returned, s1) \<Rightarrow> (Ok (), s1)
      | (Fell, s1) \<Rightarrow> signUp_fallback e email password s1
      | (Threw networkError, s1) \<Rightarrow>
          if rethrown networkError then (Throw networkError, s1)
          else signUp_fallback e email password s1)"

definition signUp :: "env \<Rightarrow> string \<Rightarrow> string \<Rightarrow> state \<Rightarrow> unit res \<times> state" where
  "signUp e email password s =
     (case signUp_try e email password s of
        (Ok u, s1) \<Rightarrow> (Ok u, s1)
      | (Throw error, s1) \<Rightarrow>
          if str_includes (err_message error) ''User already registered'' then
            (Throw (JsError ''Error''
               ''An account with this username already exists. Please sign in instead.''), s1)
          else if str_includes (err_message error) ''Invalid email'' then
            (Throw (JsError ''Error''
               ''Invalid username. Please use only letters and numbers.''), s1)
          else if str_includes (err_message error) ''Password'' then
            (Throw (JsError ''Error''
               ''Password does not meet requirements. Please use a stronger password.''), s1)
          else
            (Throw (JsError ''Error''
               (if err_message error = [] then ''Account creation failed. Please try again.''
                else err_message error)), s1))"

subsection \<open>The scheduled callbacks\<close>

text \<open>The function \<open>scheduleReexchange\<close> passes to \<open>setTimeout\<close>.\<close>

definition reexchange_callback :: "env \<Rightarrow> state \<Rightarrow> state" where
  "reexchange_callback e s =
     (let failed = (\<lambda>s1.
            scheduleUpgradeAttempt
              ((setToken e (supabaseAnonKey (config s1)) None s1)
                 \<lparr>currentTokenType := FALLBACK_ANON\<rparr>))
      in
      if currentTokenType s = USER_SCOPED then
        (case (case session s of
                 None \<Rightarrow> None
               | Some t \<Rightarrow> if t = [] then None else Some t) of
           Some userToken \<Rightarrow>
             (case exchangeForTenantUserScopedToken e userToken s of
                (Ok tokenResponse, s1) \<Rightarrow>
                  scheduleReexchange
                    (setToken e (access_token tokenResponse)
                       (Some (expires_in tokenResponse)) s1)
              | (Throw err, s1) \<Rightarrow> failed s1)
         | None \<Rightarrow> scheduleReexchange (snd (boot e s)))
      else if currentTokenType s = SCOPED_ANON then
        (case exchangeForScopedAnonToken e s of
           (Ok tokenResponse, s1) \<Rightarrow>
             scheduleReexchange
               (setToken e (access_token tokenResponse)
                  (Some (expires_in tokenResponse)) s1)
         | (Throw err, s1) \<Rightarrow> failed s1)
      else scheduleReexchange s)"

text \<open>The function \<open>scheduleUpgradeAttempt\<close> passes to \<open>setTimeout\<close>.\<close>

definition upgrade_callback :: "env \<Rightarrow> state \<Rightarrow> state" where
  "upgrade_callback e s =
     (case exchangeForScopedAnonToken e s of
        (Ok tokenResponse, s1) \<Rightarrow>
          (let s2 = setToken e (access_token tokenResponse)
                      (Some (expires_in tokenResponse)) s1;
               s3 = s2\<lparr>currentTokenType := SCOPED_ANON\<rparr>
           in scheduleReexchange s3)
      | (Throw err, s1) \<Rightarrow> scheduleUpgradeAttempt s1)"

text \<open>
  The runtime fires the pending timer with id \<open>i\<close>: the timer leaves the table, the clock is
  at its due time or later, and its callback runs. An id that is not pending fires nothing.
\<close>

definition fire_timer :: "env \<Rightarrow> nat \<Rightarrow> state \<Rightarrow> state" where
  "fire_timer e i s =
     (case find (\<lambda>t. fst t = i) (timers s) of
        None \<Rightarrow> s
      | Some (j, k, due) \<Rightarrow>
          (let s1 = (clearTimeout i s)\<lparr>clock := max (clock s) due\<rparr> in
           case k of
             Renewal \<Rightarrow> reexchange_callback e s1
           | Upgrade \<Rightarrow> upgrade_callback e s1))"

text \<open>
  The states an instance can be in between two pieces of work: after construction, and after
  any public call or fired timer has run to completion, with time passing in between.
\<close>

inductive reachable :: "state \<Rightarrow> bool" where
  r_new: "reachable (new_client cfg tok ex ty now n)"
| r_wait: "reachable s \<Longrightarrow> reachable (s\<lparr>clock := clock s + int d\<rparr>)"
| r_boot: "reachable s \<Longrightarrow> reachable (snd (boot e s))"
| r_login: "reachable s \<Longrightarrow> reachable (snd (login e email password s))"
| r_signUp: "reachable s \<Longrightarrow> reachable (snd (signUp e email password s))"
| r_logout: "reachable s \<Longrightarrow> reachable (snd (logout e s))"
| r_cleanup: "reachable s \<Longrightarrow> reachable (cleanup s)"
| r_fire: "reachable s \<Longrightarrow> reachable (fire_timer e i s)"

subsection \<open>Vocabulary of the properties\<close>

text \<open>
  An exchange fails when \<open>fetch\<close> rejects (network error, timeout), when the response is not
  2xx, or when a 2xx body does not parse: the three ways the exchange methods throw.
\<close>

definition exchange_fails :: "'j fetched \<Rightarrow> bool" where
  "exchange_fails f =
     (case f of
        Rejected n m \<Rightarrow> True
      | Responded st stText bodyText js \<Rightarrow> (if ok st then isl js else True))"

text \<open>
  Primary authentication succeeds when \<open>signInWithPassword\<close> answers without an error and
  with a user bearer token.
\<close>

definition primary_auth_ok :: "signin_result \<Rightarrow> bool" where
  "primary_auth_ok r =
     (case r of
        SignInError err \<Rightarrow> False
      | SignInData tok \<Rightarrow> (case tok of None \<Rightarrow> False | Some t \<Rightarrow> t \<noteq> []))"

text \<open>The pending timers of one kind, and the field that holds the handle of that kind.\<close>

definition pending :: "timer_kind \<Rightarrow> state \<Rightarrow> (nat \<times> timer_kind \<times> int) list" where
  "pending k s = filter (\<lambda>t. fst (snd t) = k) (timers s)"

fun handle :: "timer_kind \<Rightarrow> state \<Rightarrow> nat option" where
  "handle Renewal s = reexchangeTimer s"
| "handle Upgrade s = upgradeTimer s"

text \<open>
  The timer discipline: at most one timer of each kind is pending, and a pending timer has
  a positive id, which is the one its kind's handle field holds.
\<close>

definition slot_ok :: "timer_kind \<Rightarrow> state \<Rightarrow> bool" where
  "slot_ok k s =
     (length (pending k s) \<le> 1 \<and>
      (\<forall>t \<in> set (pending k s). 0 < fst t \<and> handle k s = Some (fst t)))"

definition timers_ok :: "state \<Rightarrow> bool" where
  "timers_ok s = (0 < next_timer s \<and> slot_ok Renewal s \<and> slot_ok Upgrade s)"





subsection \<open>Scenarios\<close>

definition example_config :: ZyloConfig where
  "example_config =
     \<lparr>supabaseUrl = ''https://db.example'', supabaseAnonKey = ''anon-key'',
      controlPlaneUrl = ''https://cp.example'', tenantId = ''tenant'',
      projectId = ''project'', signedAppContext = None\<rparr>"

text \<open>A new instance on a page with empty storage, at clock 1000.\<close>

definition fresh :: state where
  "fresh = new_client example_config None None None 1000 0"

text \<open>
  The gateway answers every exchange with a token valid for 600 seconds, the identity
  provider accepts the password and refuses a session without a refresh token, and the
  dedicated signup endpoint is not deployed.
\<close>

definition gateway_up :: env where
  "gateway_up =
     \<lparr>elapsed = 5,
      setSession_accepted = False,
      boot_fetch =
        Responded 200 ''OK'' [] (Inr \<lparr>access_token = ''scoped-anon'', expires_in = 600\<rparr>),
      exchange_fetch =
        Responded 200 ''OK'' [] (Inr \<lparr>access_token = ''user-scoped'', expires_in = 600\<rparr>),
      signup_fetch = Responded 404 ''Not Found'' [] (Inl (JsError ''SyntaxError'' [])),
      signIn = SignInData (Some ''user-session''),
      supaSignUp =
        \<lparr>su_error = None, su_user = True, su_session = Some (''new-session'', Some 3600)\<rparr>\<rparr>"

text \<open>The gateway is unreachable: every \<open>fetch\<close> rejects.\<close>

definition gateway_down :: env where
  "gateway_down =
     gateway_up
       \<lparr>boot_fetch := Rejected ''TypeError'' ''Failed to fetch'',
        exchange_fetch := Rejected ''TypeError'' ''Failed to fetch'',
        signup_fetch := Rejected ''TypeError'' ''Failed to fetch''\<rparr>"

text \<open>
  The signup endpoint answers 403 with the JSON body
  \<open>{error: 'Signups are disabled for this tenant'}\<close>.
\<close>

definition signup_forbidden :: env where
  "signup_forbidden =
     gateway_up
       \<lparr>signup_fetch :=
          Responded 403 ''Forbidden'' [] (Inr (Some ''Signups are disabled for this tenant''))\<rparr>"


text \<open>\<open>boot()\<close> on the new instance with the gateway up, and \<open>boot()\<close> again right after.\<close>

definition booted :: state where
  "booted = snd (boot gateway_up fresh)"

definition rebooted :: state where
  "rebooted = snd (boot gateway_up booted)"


text \<open>
  \<open>boot()\<close> on the new instance with the gateway down, then \<open>login\<close> once the gateway is
  back, then the upgrade timer armed by that \<open>boot\<close> (id 1) fires.
\<close>

definition degraded :: state where
  "degraded = snd (boot gateway_down fresh)"

definition logged_in :: state where
  "logged_in = snd (login gateway_up ''alice'' ''goodpw'' degraded)"

definition upgraded :: state where
  "upgraded = fire_timer gateway_up 1 logged_in"

section \<open>Basic facts\<close>

lemma boot_returns: "fst (boot e s) = Ok ()"
  by (simp add: boot_def Let_def split: option.splits prod.splits res.splits)

lemma exchange_anon_state:
  "snd (exchangeForScopedAnonToken e s) = request BootFetch (elapsed e) s"
  by (simp add: exchangeForScopedAnonToken_def Let_def split: fetched.splits sum.splits)


lemma exchange_tenant_state:
  "snd (exchangeForTenantUserScopedToken e u s) = request TenantExchangeFetch (elapsed e) s"
  by (simp add: exchangeForTenantUserScopedToken_def Let_def split: fetched.splits sum.splits)

lemma exchange_tenant_throws:
  "exchange_fails (exchange_fetch e) \<Longrightarrow>
     \<exists>err. fst (exchangeForTenantUserScopedToken e u s) = Throw err"
  by (auto simp: exchange_fails_def exchangeForTenantUserScopedToken_def Let_def
      split: fetched.splits sum.splits if_splits)

lemma restorable_ensure [simp]:
  "restorable (ensureTenantUsersTableExists s) = restorable s"
  by (simp add: restorable_def loadStoredToken_def isTokenExpired_def
      ensureTenantUsersTableExists_def request_def split: option.splits)

text \<open>The three paths of \<open>boot\<close>.\<close>

lemma boot_restore:
  assumes "restorable s = Some (token, expiry, ty)"
  shows "snd (boot e s) =
     scheduleReexchange
       ((setToken e token None (ensureTenantUsersTableExists s))
          \<lparr>currentTokenType := ty, tokenExpiry := Some expiry\<rparr>)"
  using assms by (simp add: boot_def Let_def)

lemma boot_exchanged:
  assumes "restorable s = None"
    and "fst (exchangeForScopedAnonToken e (ensureTenantUsersTableExists s)) = Ok r"
  shows "snd (boot e s) =
     scheduleReexchange
       ((setToken e (access_token r) (Some (expires_in r))
          (request BootFetch (elapsed e) (ensureTenantUsersTableExists s)))
          \<lparr>currentTokenType := SCOPED_ANON\<rparr>)"
proof -
  have "exchangeForScopedAnonToken e (ensureTenantUsersTableExists s) =
      (Ok r, request BootFetch (elapsed e) (ensureTenantUsersTableExists s))"
    using assms(2) exchange_anon_state[of e "ensureTenantUsersTableExists s"]
    by (cases "exchangeForScopedAnonToken e (ensureTenantUsersTableExists s)") simp
  then show ?thesis using assms(1) by (simp add: boot_def Let_def)
qed

lemma boot_fallback:
  assumes "restorable s = None"
    and "fst (exchangeForScopedAnonToken e (ensureTenantUsersTableExists s)) = Throw err"
  shows "snd (boot e s) =
     scheduleUpgradeAttempt
       ((setToken e (supabaseAnonKey (config s)) None
          (request BootFetch (elapsed e) (ensureTenantUsersTableExists s)))
          \<lparr>currentTokenType := FALLBACK_ANON\<rparr>)"
proof -
  have "exchangeForScopedAnonToken e (ensureTenantUsersTableExists s) =
      (Throw err, request BootFetch (elapsed e) (ensureTenantUsersTableExists s))"
    using assms(2) exchange_anon_state[of e "ensureTenantUsersTableExists s"]
    by (cases "exchangeForScopedAnonToken e (ensureTenantUsersTableExists s)") simp
  moreover have
    "config (request BootFetch (elapsed e) (ensureTenantUsersTableExists s)) = config s"
    by (simp add: request_def ensureTenantUsersTableExists_def)
  ultimately show ?thesis using assms(1) by (simp add: boot_def Let_def)
qed



subsection \<open>The timer discipline is an invariant\<close>

lemma pending_clearTimeout:
  "pending k (clearTimeout i s) = filter (\<lambda>t. fst t \<noteq> i) (pending k s)"
  by (simp add: pending_def clearTimeout_def conj_commute)

lemma pending_setTimeout:
  "pending k (snd (setTimeout k' d s)) =
     pending k s @
       (if k' = k then [(next_timer s, k', clock s + max 0 (to_int32 d))] else [])"
  by (simp add: pending_def setTimeout_def)

lemma slot_ok_same:
  assumes "pending k s' = pending k s" "handle k s' = handle k s"
  shows "slot_ok k s' = slot_ok k s"
  using assms by (simp add: slot_ok_def)

lemma timers_ok_frame:
  assumes "timers s' = timers s" "next_timer s' = next_timer s"
    "reexchangeTimer s' = reexchangeTimer s" "upgradeTimer s' = upgradeTimer s"
  shows "timers_ok s' = timers_ok s"
proof -
  have "\<And>k. pending k s' = pending k s"
    using assms by (simp add: pending_def)
  moreover have "\<And>k. handle k s' = handle k s"
    using assms by (case_tac k) simp_all
  ultimately
  show ?thesis using assms(2) by (simp add: timers_ok_def slot_ok_def)
qed

lemma timers_ok_request [simp]: "timers_ok (request c d s) = timers_ok s"
  by (rule timers_ok_frame) (simp_all add: request_def)

lemma timers_ok_setToken [simp]: "timers_ok (setToken e tok x s) = timers_ok s"
  by (rule timers_ok_frame)
    (simp_all add: setToken_def setSession_def Let_def split: option.splits)

lemma timers_ok_fields [simp]:
  "timers_ok (s\<lparr>currentTokenType := ty\<rparr>) = timers_ok s"
  "timers_ok (s\<lparr>tokenExpiry := ex\<rparr>) = timers_ok s"
  "timers_ok (s\<lparr>session := se\<rparr>) = timers_ok s"
  "timers_ok (s\<lparr>clock := c\<rparr>) = timers_ok s"
  by (rule timers_ok_frame; simp)+

lemma timers_ok_ensure [simp]: "timers_ok (ensureTenantUsersTableExists s) = timers_ok s"
  by (simp add: ensureTenantUsersTableExists_def)

text \<open>Removing timers keeps a slot in order.\<close>

lemma slot_ok_clearTimeout:
  assumes "slot_ok k s"
  shows "slot_ok k (clearTimeout i s)"
proof -
  have h: "handle k (clearTimeout i s) = handle k s"
    by (cases k) (simp_all add: clearTimeout_def)
  have "length (pending k (clearTimeout i s)) \<le> length (pending k s)"
    by (simp add: pending_clearTimeout)
  moreover from assms have "length (pending k s) \<le> 1"
    by (simp add: slot_ok_def)
  ultimately have "length (pending k (clearTimeout i s)) \<le> 1"
    by (rule le_trans)
  with assms h show ?thesis
    by (auto simp: slot_ok_def pending_clearTimeout)
qed

lemma slot_cleared:
  assumes "slot_ok k s" "handle k s = Some i"
  shows "pending k (clearTimeout i s) = []"
  using assms by (auto simp: slot_ok_def pending_clearTimeout filter_empty_conv)

lemma slot_empty:
  assumes "slot_ok k s" "handle k s = None \<or> handle k s = Some 0"
  shows "pending k s = []"
proof (cases "pending k s")
  case Nil
  then show ?thesis .
next
  case (Cons t ts)
  then have "t \<in> set (pending k s)" by simp
  with assms(1) have "0 < fst t" "handle k s = Some (fst t)"
    by (simp_all add: slot_ok_def)
  with assms(2) show ?thesis by auto
qed

lemma clearReexchange_ok:
  assumes "timers_ok s"
  shows "timers_ok (clearReexchangeTimer s) \<and> pending Renewal (clearReexchangeTimer s) = []"
proof (cases "reexchangeTimer s = None \<or> reexchangeTimer s = Some 0")
  case True
  then have "clearReexchangeTimer s = s" by (auto simp: clearReexchangeTimer_def)
  moreover from True assms have "pending Renewal s = []"
    by (intro slot_empty) (auto simp: timers_ok_def)
  ultimately show ?thesis using assms by simp
next
  case False
  then obtain i where i: "reexchangeTimer s = Some i" "i \<noteq> 0" by auto
  then have c: "clearReexchangeTimer s = (clearTimeout i s)\<lparr>reexchangeTimer := None\<rparr>"
    by (simp add: clearReexchangeTimer_def)
  have p: "\<And>k. pending k (clearReexchangeTimer s) = pending k (clearTimeout i s)"
    by (simp add: c pending_def)
  have e: "pending Renewal (clearTimeout i s) = []"
    using assms i by (intro slot_cleared) (auto simp: timers_ok_def)
  have "slot_ok Upgrade (clearTimeout i s)"
    using assms by (simp add: timers_ok_def slot_ok_clearTimeout)
  moreover have "handle Upgrade (clearReexchangeTimer s) = handle Upgrade (clearTimeout i s)"
    by (simp add: c)
  ultimately have "slot_ok Upgrade (clearReexchangeTimer s)"
    by (simp add: slot_ok_def p)
  moreover have "slot_ok Renewal (clearReexchangeTimer s)"
    by (simp add: slot_ok_def p e)
  moreover have "0 < next_timer (clearReexchangeTimer s)"
    using assms by (simp add: c clearTimeout_def timers_ok_def)
  ultimately show ?thesis by (simp add: timers_ok_def p e)
qed

lemma clearUpgrade_ok:
  assumes "timers_ok s"
  shows "timers_ok (clearUpgradeTimer s) \<and> pending Upgrade (clearUpgradeTimer s) = []"
proof (cases "upgradeTimer s = None \<or> upgradeTimer s = Some 0")
  case True
  then have "clearUpgradeTimer s = s" by (auto simp: clearUpgradeTimer_def)
  moreover from True assms have "pending Upgrade s = []"
    by (intro slot_empty) (auto simp: timers_ok_def)
  ultimately show ?thesis using assms by simp
next
  case False
  then obtain i where i: "upgradeTimer s = Some i" "i \<noteq> 0" by auto
  then have c: "clearUpgradeTimer s = (clearTimeout i s)\<lparr>upgradeTimer := None\<rparr>"
    by (simp add: clearUpgradeTimer_def)
  have p: "\<And>k. pending k (clearUpgradeTimer s) = pending k (clearTimeout i s)"
    by (simp add: c pending_def)
  have e: "pending Upgrade (clearTimeout i s) = []"
    using assms i by (intro slot_cleared) (auto simp: timers_ok_def)
  have "slot_ok Renewal (clearTimeout i s)"
    using assms by (simp add: timers_ok_def slot_ok_clearTimeout)
  moreover have "handle Renewal (clearUpgradeTimer s) = handle Renewal (clearTimeout i s)"
    by (simp add: c)
  ultimately have "slot_ok Renewal (clearUpgradeTimer s)"
    by (simp add: slot_ok_def p)
  moreover have "slot_ok Upgrade (clearUpgradeTimer s)"
    by (simp add: slot_ok_def p e)
  moreover have "0 < next_timer (clearUpgradeTimer s)"
    using assms by (simp add: c clearTimeout_def timers_ok_def)
  ultimately show ?thesis by (simp add: timers_ok_def p e)
qed

text \<open>Arming a timer of kind \<open>k\<close> when none of that kind is pending.\<close>

lemma arm_ok:
  assumes "timers_ok s" "pending k s = []"
  shows "timers_ok (case k of
            Renewal \<Rightarrow> (snd (setTimeout k d s))\<lparr>reexchangeTimer := Some (next_timer s)\<rparr>
          | Upgrade \<Rightarrow> (snd (setTimeout k d s))\<lparr>upgradeTimer := Some (next_timer s)\<rparr>)"
  using assms
  by (cases k) (auto simp: timers_ok_def slot_ok_def pending_def setTimeout_def)

lemma scheduleReexchange_ok:
  assumes "timers_ok s"
  shows "timers_ok (scheduleReexchange s)"
proof -
  let ?s1 = "clearReexchangeTimer s"
  have c: "timers_ok ?s1" "pending Renewal ?s1 = []"
    using clearReexchange_ok[OF assms] by simp_all
  show ?thesis
  proof (cases "tokenExpiry ?s1")
    case None
    with c show ?thesis by (simp add: scheduleReexchange_def Let_def)
  next
    case (Some x)
    show ?thesis
    proof (cases "x = 0")
      case True
      with Some c show ?thesis by (simp add: scheduleReexchange_def Let_def)
    next
      case False
      with Some arm_ok[OF c, of "max 0 (x - 2 * 60 * 1000 - clock ?s1)"]
      show ?thesis by (simp add: scheduleReexchange_def Let_def setTimeout_def)
    qed
  qed
qed

lemma scheduleUpgradeAttempt_ok:
  assumes "timers_ok s"
  shows "timers_ok (scheduleUpgradeAttempt s)"
proof -
  let ?s1 = "clearUpgradeTimer s"
  have c: "timers_ok ?s1" "pending Upgrade ?s1 = []"
    using clearUpgrade_ok[OF assms] by simp_all
  show ?thesis
    using arm_ok[OF c, of "5 * 60 * 1000"]
    by (simp add: scheduleUpgradeAttempt_def Let_def setTimeout_def)
qed

lemma exchange_anon_eq:
  "exchangeForScopedAnonToken e s = (r, s') \<Longrightarrow> s' = request BootFetch (elapsed e) s"
  using exchange_anon_state[of e s] by simp

lemma exchange_tenant_eq:
  "exchangeForTenantUserScopedToken e u s = (r, s') \<Longrightarrow>
     s' = request TenantExchangeFetch (elapsed e) s"
  using exchange_tenant_state[of e u s] by simp

lemma boot_ok:
  assumes "timers_ok s"
  shows "timers_ok (snd (boot e s))"
proof (cases "restorable s")
  case (Some stored)
  obtain token expiry ty where "stored = (token, expiry, ty)" by (cases stored) auto
  with Some assms show ?thesis
    by (simp add: boot_restore scheduleReexchange_ok)
next
  case None
  show ?thesis
  proof (cases "fst (exchangeForScopedAnonToken e (ensureTenantUsersTableExists s))")
    case (Ok r)
    with None assms show ?thesis by (simp add: boot_exchanged scheduleReexchange_ok)
  next
    case (Throw err)
    with None assms show ?thesis by (simp add: boot_fallback scheduleUpgradeAttempt_ok)
  qed
qed

lemma login_ok:
  assumes "timers_ok s"
  shows "timers_ok (snd (login e email password s))"
  using assms
  by (auto simp: login_def Let_def scheduleReexchange_ok
      split: signin_result.splits option.splits prod.splits res.splits
      dest!: exchange_tenant_eq)

lemma signUp_fallback_ok:
  assumes "timers_ok s"
  shows "timers_ok (snd (signUp_fallback e email password s))"
  using assms
  by (auto simp: signUp_fallback_def Let_def scheduleReexchange_ok login_ok
      split: option.splits prod.splits)

lemma signUp_primary_ok:
  assumes "timers_ok s"
  shows "timers_ok (snd (signUp_primary e email password s))"
proof -
  have "timers_ok (snd (login e email password (request SignupFetch (elapsed e) s)))"
    using assms by (simp add: login_ok)
  with assms show ?thesis
    by (auto simp: signUp_primary_def Let_def
        split: fetched.splits prod.splits res.splits)
qed

lemma signUp_try_ok:
  assumes "timers_ok s"
  shows "timers_ok (snd (signUp_try e email password s))"
proof -
  obtain r s1 where p: "signUp_primary e email password s = (r, s1)"
    by (cases "signUp_primary e email password s")
  with signUp_primary_ok[OF assms, of e email password] have "timers_ok s1" by simp
  with p show ?thesis
    by (simp add: signUp_try_def signUp_fallback_ok split: primary_outcome.splits)
qed

lemma signUp_ok:
  assumes "timers_ok s"
  shows "timers_ok (snd (signUp e email password s))"
proof -
  have "snd (signUp e email password s) = snd (signUp_try e email password s)"
    by (simp add: signUp_def split: prod.splits res.splits)
  with assms show ?thesis by (simp add: signUp_try_ok)
qed

lemma cleanup_ok: "timers_ok s \<Longrightarrow> timers_ok (cleanup s)"
  by (simp add: cleanup_def clearReexchange_ok clearUpgrade_ok)

lemma logout_ok: "timers_ok s \<Longrightarrow> timers_ok (snd (logout e s))"
  by (simp add: logout_def Let_def boot_ok clearReexchange_ok clearUpgrade_ok)

lemma reexchange_callback_ok:
  assumes "timers_ok s"
  shows "timers_ok (reexchange_callback e s)"
  using assms
  by (auto simp: reexchange_callback_def Let_def scheduleReexchange_ok
      scheduleUpgradeAttempt_ok boot_ok
      split: option.splits prod.splits res.splits
      dest!: exchange_tenant_eq exchange_anon_eq)

lemma upgrade_callback_ok:
  assumes "timers_ok s"
  shows "timers_ok (upgrade_callback e s)"
  using assms
  by (auto simp: upgrade_callback_def Let_def scheduleReexchange_ok
      scheduleUpgradeAttempt_ok
      split: prod.splits res.splits dest!: exchange_anon_eq)

lemma clearTimeout_ok:
  assumes "timers_ok s"
  shows "timers_ok (clearTimeout i s)"
  using assms by (simp add: timers_ok_def slot_ok_clearTimeout) (simp add: clearTimeout_def)

lemma fire_timer_ok:
  assumes "timers_ok s"
  shows "timers_ok (fire_timer e i s)"
  using assms
  by (simp add: fire_timer_def Let_def clearTimeout_ok reexchange_callback_ok
      upgrade_callback_ok split: option.splits prod.splits timer_kind.splits)

lemma new_client_ok: "timers_ok (new_client cfg tok ex ty now n)"
  by (simp add: timers_ok_def slot_ok_def pending_def new_client_def)

lemma reachable_timers_ok: "reachable s \<Longrightarrow> timers_ok s"
proof (induction rule: reachable.induct)
  case (r_new cfg tok ex ty now n)
  show ?case by (rule new_client_ok)
next
  case (r_wait s d)
  then show ?case by simp
next
  case (r_boot s e)
  then show ?case by (simp add: boot_ok)
next
  case (r_login s e email password)
  then show ?case by (simp add: login_ok)
next
  case (r_signUp s e email password)
  then show ?case by (simp add: signUp_ok)
next
  case (r_logout s e)
  then show ?case by (simp add: logout_ok)
next
  case (r_cleanup s)
  then show ?case by (simp add: cleanup_ok)
next
  case (r_fire s e i)
  then show ?case by (simp add: fire_timer_ok)
qed

subsection \<open>What scheduling leaves alone\<close>

lemma scheduleReexchange_frame [simp]:
  "calls (scheduleReexchange s) = calls s"
  "stored_token (scheduleReexchange s) = stored_token s"
  "stored_expiry (scheduleReexchange s) = stored_expiry s"
  "stored_type (scheduleReexchange s) = stored_type s"
  "session (scheduleReexchange s) = session s"
  "offered_token (scheduleReexchange s) = offered_token s"
  "currentTokenType (scheduleReexchange s) = currentTokenType s"
  "tokenExpiry (scheduleReexchange s) = tokenExpiry s"
  "clock (scheduleReexchange s) = clock s"
  "config (scheduleReexchange s) = config s"
  by (simp_all add: scheduleReexchange_def clearReexchangeTimer_def setTimeout_def
      clearTimeout_def Let_def split: option.splits)

lemma scheduleUpgradeAttempt_frame [simp]:
  "calls (scheduleUpgradeAttempt s) = calls s"
  "stored_token (scheduleUpgradeAttempt s) = stored_token s"
  "stored_expiry (scheduleUpgradeAttempt s) = stored_expiry s"
  "stored_type (scheduleUpgradeAttempt s) = stored_type s"
  "session (scheduleUpgradeAttempt s) = session s"
  "offered_token (scheduleUpgradeAttempt s) = offered_token s"
  "currentTokenType (scheduleUpgradeAttempt s) = currentTokenType s"
  "tokenExpiry (scheduleUpgradeAttempt s) = tokenExpiry s"
  "clock (scheduleUpgradeAttempt s) = clock s"
  "config (scheduleUpgradeAttempt s) = config s"
  by (simp_all add: scheduleUpgradeAttempt_def clearUpgradeTimer_def setTimeout_def
      clearTimeout_def Let_def split: option.splits)

lemma restorable_empty: "stored_token s = None \<Longrightarrow> restorable s = None"
  by (simp add: restorable_def loadStoredToken_def)

lemma exchange_anon_ok:
  "boot_fetch e = Responded st stText bodyText (Inr r) \<Longrightarrow> ok st \<Longrightarrow>
     fst (exchangeForScopedAnonToken e s) = Ok r"
  by (simp add: exchangeForScopedAnonToken_def Let_def)

lemma boot_calls_exchange:
  assumes "restorable s = None"
  shows "calls (snd (boot e s)) = calls s @ [EnsureTableFetch, BootFetch]"
proof (cases "fst (exchangeForScopedAnonToken e (ensureTenantUsersTableExists s))")
  case (Ok r)
  with assms show ?thesis
    by (simp add: boot_exchanged setToken_def setSession_def request_def ensureTenantUsersTableExists_def
        Let_def)
next
  case (Throw err)
  with assms show ?thesis
    by (simp add: boot_fallback setToken_def setSession_def request_def ensureTenantUsersTableExists_def
        Let_def)
qed


subsection \<open>The scenario runs\<close>

lemmas model_defs =
  boot_def login_def logout_def signUp_def signUp_try_def signUp_primary_def
  signUp_fallback_def rethrown_def fire_timer_def reexchange_callback_def
  upgrade_callback_def exchangeForScopedAnonToken_def exchangeForTenantUserScopedToken_def
  ensureTenantUsersTableExists_def restorable_def loadStoredToken_def isTokenExpired_def
  setToken_def setSession_def scheduleReexchange_def scheduleUpgradeAttempt_def
  clearReexchangeTimer_def clearUpgradeTimer_def setTimeout_def to_int32_def
  clearTimeout_def request_def ok_def new_client_def Let_def

lemma booted_eq:
  "booted =
     \<lparr>config = example_config, currentTokenType = SCOPED_ANON, tokenExpiry = Some 601005,
      reexchangeTimer = Some 1, upgradeTimer = None,
      stored_token = Some ''scoped-anon'', stored_expiry = Some 601005,
      stored_type = Some FALLBACK_ANON, session = None,
      offered_token = Some ''scoped-anon'', clock = 1005,
      timers = [(1, Renewal, 481005)], next_timer = 2,
      calls = [EnsureTableFetch, BootFetch]\<rparr>"
  by (simp add: booted_def model_defs fresh_def gateway_up_def)

lemma rebooted_eq:
  "rebooted =
     \<lparr>config = example_config, currentTokenType = FALLBACK_ANON, tokenExpiry = Some 601005,
      reexchangeTimer = Some 2, upgradeTimer = None,
      stored_token = None, stored_expiry = None, stored_type = None,
      session = None, offered_token = Some ''scoped-anon'', clock = 1005,
      timers = [(2, Renewal, 481005)], next_timer = 3,
      calls = [EnsureTableFetch, BootFetch, EnsureTableFetch]\<rparr>"
  by (simp add: rebooted_def booted_eq model_defs gateway_up_def)


lemma degraded_eq:
  "degraded =
     \<lparr>config = example_config, currentTokenType = FALLBACK_ANON, tokenExpiry = None,
      reexchangeTimer = None, upgradeTimer = Some 1,
      stored_token = None, stored_expiry = None, stored_type = None,
      session = None, offered_token = Some ''anon-key'', clock = 1005,
      timers = [(1, Upgrade, 301005)], next_timer = 2,
      calls = [EnsureTableFetch, BootFetch]\<rparr>"
  by (simp add: degraded_def model_defs fresh_def gateway_down_def gateway_up_def
      example_config_def)

lemma logged_in_eq:
  "logged_in =
     \<lparr>config = example_config, currentTokenType = USER_SCOPED, tokenExpiry = Some 601015,
      reexchangeTimer = Some 2, upgradeTimer = Some 1,
      stored_token = Some ''user-scoped'', stored_expiry = Some 601015,
      stored_type = Some FALLBACK_ANON, session = Some ''user-session'',
      offered_token = Some ''user-scoped'', clock = 1015,
      timers = [(1, Upgrade, 301005), (2, Renewal, 481015)], next_timer = 3,
      calls = [EnsureTableFetch, BootFetch, IdpSignIn, TenantExchangeFetch]\<rparr>"
  by (simp add: logged_in_def degraded_eq model_defs gateway_up_def)

lemma upgraded_eq:
  "upgraded =
     \<lparr>config = example_config, currentTokenType = SCOPED_ANON, tokenExpiry = Some 901010,
      reexchangeTimer = Some 3, upgradeTimer = Some 1,
      stored_token = Some ''scoped-anon'', stored_expiry = Some 901010,
      stored_type = Some USER_SCOPED, session = Some ''user-session'',
      offered_token = Some ''scoped-anon'', clock = 301010,
      timers = [(3, Renewal, 781010)], next_timer = 4,
      calls = [EnsureTableFetch, BootFetch, IdpSignIn, TenantExchangeFetch, BootFetch]\<rparr>"
  by (simp add: upgraded_def logged_in_eq model_defs gateway_up_def)

lemma signup_forbidden_eq:
  "signUp signup_forbidden ''bob'' ''Secret123'' fresh =
     (Ok (),
      \<lparr>config = example_config, currentTokenType = USER_SCOPED, tokenExpiry = Some 3601010,
       reexchangeTimer = Some 1, upgradeTimer = None,
       stored_token = Some ''new-session'', stored_expiry = Some 3601010,
       stored_type = Some FALLBACK_ANON, session = Some ''new-session'',
       offered_token = Some ''new-session'', clock = 1010,
       timers = [(1, Renewal, 3481010)], next_timer = 2,
       calls = [SignupFetch, IdpSignUp]\<rparr>)"
  by (simp add: model_defs fresh_def signup_forbidden_def gateway_up_def)

subsection \<open>Every method that binds a token with an expiry arms the renewal\<close>












section \<open>The claims\<close>




text \<open>
  C2. Two calls of \<open>boot\<close> in succession do not always end in the same tier. On a new
  instance with empty storage and the gateway up, the first \<open>boot\<close> ends in \<open>SCOPED_ANON\<close>
  with an unexpired token; the second restores the stored record without any exchange (it
  only issues the ensure-table request) and ends in \<open>FALLBACK_ANON\<close>, the tier tag that the
  first call had persisted.
\<close>

theorem boot_twice_changes_tier:
  "booted = snd (boot gateway_up fresh) \<and> rebooted = snd (boot gateway_up booted) \<and>
   currentTokenType booted = SCOPED_ANON \<and>
   restorable booted = Some (''scoped-anon'', 601005, FALLBACK_ANON) \<and>
   calls rebooted = calls booted @ [EnsureTableFetch] \<and>
   currentTokenType rebooted = FALLBACK_ANON"
proof -
  have "restorable booted = Some (''scoped-anon'', 601005, FALLBACK_ANON)"
    by (simp add: booted_eq restorable_def loadStoredToken_def isTokenExpired_def)
  moreover have "calls rebooted = calls booted @ [EnsureTableFetch]"
    "currentTokenType booted = SCOPED_ANON" "currentTokenType rebooted = FALLBACK_ANON"
    by (simp_all add: booted_eq rebooted_eq)
  moreover have "booted = snd (boot gateway_up fresh)" "rebooted = snd (boot gateway_up booted)"
    by (simp_all only: booted_def rebooted_def)
  ultimately show ?thesis by blast
qed

text \<open>
  C3. A state with tier \<open>FALLBACK_ANON\<close> that holds an expiry is reachable: it is the state
  after constructing an instance on empty storage and calling \<open>boot\<close> twice with the gateway
  up.
\<close>

theorem fallback_with_expiry_reachable:
  "reachable rebooted \<and> currentTokenType rebooted = FALLBACK_ANON \<and>
   tokenExpiry rebooted = Some 601005"
proof -
  have "reachable fresh" unfolding fresh_def by (rule r_new)
  then have "reachable booted" unfolding booted_def by (rule r_boot)
  then have "reachable rebooted" unfolding rebooted_def by (rule r_boot)
  then show ?thesis by (simp add: rebooted_eq)
qed

text \<open>
  C4. After a successful exchange the stored tier tag is the tier the instance had before
  the call, not the tier of the new token: after \<open>boot\<close> on a new instance the active tier is
  \<open>SCOPED_ANON\<close> and the stored tag \<open>FALLBACK_ANON\<close>; after \<open>login\<close> from the degraded state
  the active tier is \<open>USER_SCOPED\<close> and the stored tag \<open>FALLBACK_ANON\<close>.
\<close>

theorem stored_tier_is_stale:
  "currentTokenType booted = SCOPED_ANON \<and> stored_token booted = Some ''scoped-anon'' \<and>
   stored_expiry booted = Some 601005 \<and> stored_type booted = Some FALLBACK_ANON \<and>
   currentTokenType logged_in = USER_SCOPED \<and> stored_token logged_in = Some ''user-scoped'' \<and>
   stored_type logged_in = Some FALLBACK_ANON"
  by (simp add: booted_eq logged_in_eq)

text \<open>
  C5. \<open>login\<close> throws exactly when primary authentication fails. When primary
  authentication succeeds and the user-scoped exchange fails, \<open>login\<close> returns normally, the
  identity provider session is the user's, and tier, expiry, storage and timers are what they
  were before the call.
\<close>

theorem login_throws_iff_primary_fails:
  "((\<exists>err. fst (login e email password s) = Throw err) = (\<not> primary_auth_ok (signIn e))) \<and>
   (primary_auth_ok (signIn e) \<and> exchange_fails (exchange_fetch e) \<longrightarrow>
      (let s' = snd (login e email password s) in
         fst (login e email password s) = Ok () \<and>
         signIn e = SignInData (session s') \<and>
         currentTokenType s' = currentTokenType s \<and> tokenExpiry s' = tokenExpiry s \<and>
         stored_token s' = stored_token s \<and> stored_expiry s' = stored_expiry s \<and>
         stored_type s' = stored_type s \<and> timers s' = timers s))"
proof (cases "signIn e")
  case (SignInError err)
  then show ?thesis by (simp add: login_def primary_auth_ok_def Let_def)
next
  case (SignInData tok)
  show ?thesis
  proof (cases "primary_auth_ok (signIn e)")
    case False
    with SignInData show ?thesis
      by (auto simp: login_def primary_auth_ok_def Let_def split: option.splits)
  next
    case True
    with SignInData obtain u where u: "tok = Some u" "u \<noteq> []"
      by (auto simp: primary_auth_ok_def split: option.splits)
    let ?s1 = "(request IdpSignIn (elapsed e) s)\<lparr>session := tok\<rparr>"
    have never: "\<not> (\<exists>err. fst (login e email password s) = Throw err)"
      using SignInData u
      by (auto simp: login_def Let_def split: prod.splits res.splits)
    have kept: "exchange_fails (exchange_fetch e) \<Longrightarrow>
        login e email password s = (Ok (), request TenantExchangeFetch (elapsed e) ?s1)"
    proof -
      assume "exchange_fails (exchange_fetch e)"
      then obtain err where "fst (exchangeForTenantUserScopedToken e u ?s1) = Throw err"
        using exchange_tenant_throws by blast
      then have "exchangeForTenantUserScopedToken e u ?s1 =
          (Throw err, request TenantExchangeFetch (elapsed e) ?s1)"
        using exchange_tenant_state[of e u ?s1]
        by (cases "exchangeForTenantUserScopedToken e u ?s1") simp
      with SignInData u show ?thesis by (simp add: login_def Let_def)
    qed
    show ?thesis
      using True never kept SignInData u
      by (auto simp: Let_def request_def)
  qed
qed

theorem login_throws_iff_primary_fails_witness:
  "primary_auth_ok (signIn gateway_down) \<and> exchange_fails (exchange_fetch gateway_down) \<and>
   fst (login gateway_down ''alice'' ''goodpw'' degraded) = Ok () \<and>
   session (snd (login gateway_down ''alice'' ''goodpw'' degraded)) = Some ''user-session'' \<and>
   currentTokenType (snd (login gateway_down ''alice'' ''goodpw'' degraded)) = FALLBACK_ANON \<and>
   tokenExpiry (snd (login gateway_down ''alice'' ''goodpw'' degraded)) = None"
proof -
  have h1: "primary_auth_ok (signIn gateway_down)"
    by (simp add: primary_auth_ok_def gateway_down_def gateway_up_def)
  have h2: "exchange_fails (exchange_fetch gateway_down)"
    by (simp add: exchange_fails_def gateway_down_def gateway_up_def)
  have s: "signIn gateway_down = SignInData (Some ''user-session'')"
    by (simp add: gateway_down_def gateway_up_def)
  have d: "currentTokenType degraded = FALLBACK_ANON" "tokenExpiry degraded = None"
    by (simp_all add: degraded_eq)
  from login_throws_iff_primary_fails[of gateway_down "''alice''" "''goodpw''" degraded]
    h1 h2 s d
  show ?thesis by (simp add: Let_def)
qed

text \<open>
  C6. A non-2xx, non-404 answer of the signup endpoint that carries a server message does
  not surface: when the endpoint answers 403 with the message
  \<open>Signups are disabled for this tenant\<close>, \<open>signUp\<close> goes on to the direct sign-up of the
  identity provider and, when that succeeds, returns normally in tier \<open>USER_SCOPED\<close>.
\<close>

theorem signup_error_falls_through:
  "fst (signUp signup_forbidden ''bob'' ''Secret123'' fresh) = Ok () \<and>
   calls (snd (signUp signup_forbidden ''bob'' ''Secret123'' fresh)) = [SignupFetch, IdpSignUp] \<and>
   currentTokenType (snd (signUp signup_forbidden ''bob'' ''Secret123'' fresh)) = USER_SCOPED"
  by (simp add: signup_forbidden_eq)

text \<open>
  C7. The upgrade-retry callback applies its result whatever the tier is. After \<open>boot\<close> with
  the gateway down, \<open>login\<close> raises the tier to \<open>USER_SCOPED\<close> and leaves the upgrade timer
  pending; when that timer fires, the tier becomes \<open>SCOPED_ANON\<close> and the scoped-anonymous
  token is the one handed to \<open>setSession\<close>.
\<close>

theorem upgrade_overwrites_user_scoped:
  "currentTokenType degraded = FALLBACK_ANON \<and>
   currentTokenType logged_in = USER_SCOPED \<and>
   pending Upgrade logged_in = [(1, Upgrade, 301005)] \<and>
   upgraded = fire_timer gateway_up 1 logged_in \<and>
   currentTokenType upgraded = SCOPED_ANON \<and>
   offered_token upgraded = Some ''scoped-anon''"
proof -
  have "upgraded = fire_timer gateway_up 1 logged_in"
    by (simp only: upgraded_def)
  moreover have "currentTokenType degraded = FALLBACK_ANON"
    "currentTokenType logged_in = USER_SCOPED"
    "pending Upgrade logged_in = [(1, Upgrade, 301005)]"
    "currentTokenType upgraded = SCOPED_ANON"
    "offered_token upgraded = Some ''scoped-anon''"
    by (simp_all add: degraded_eq logged_in_eq upgraded_eq pending_def)
  ultimately show ?thesis by blast
qed

text \<open>
  C8. In every reachable state at most one renewal timer and at most one upgrade timer are
  pending. The first step of arming either kind leaves no timer of that kind pending, so
  after arming there is still at most one.
\<close>

theorem one_timer_per_kind:
  assumes "reachable s"
  shows "length (pending Renewal s) \<le> 1 \<and> length (pending Upgrade s) \<le> 1 \<and>
         pending Renewal (clearReexchangeTimer s) = [] \<and>
         pending Upgrade (clearUpgradeTimer s) = [] \<and>
         length (pending Renewal (scheduleReexchange s)) \<le> 1 \<and>
         length (pending Upgrade (scheduleUpgradeAttempt s)) \<le> 1"
proof -
  have inv: "timers_ok s" using assms by (rule reachable_timers_ok)
  have "timers_ok (scheduleReexchange s)" "timers_ok (scheduleUpgradeAttempt s)"
    using inv by (simp_all add: scheduleReexchange_ok scheduleUpgradeAttempt_ok)
  with inv clearReexchange_ok[OF inv] clearUpgrade_ok[OF inv] show ?thesis
    by (simp add: timers_ok_def slot_ok_def)
qed

theorem one_timer_per_kind_witness:
  "reachable logged_in \<and>
   pending Renewal logged_in = [(2, Renewal, 481015)] \<and>
   pending Upgrade logged_in = [(1, Upgrade, 301005)] \<and>
   length (pending Renewal (scheduleReexchange logged_in)) \<le> 1 \<and>
   length (pending Upgrade (scheduleUpgradeAttempt logged_in)) \<le> 1"
proof -
  have "reachable fresh" unfolding fresh_def by (rule r_new)
  then have "reachable degraded" unfolding degraded_def by (rule r_boot)
  then have r: "reachable logged_in" unfolding logged_in_def by (rule r_login)
  have p: "pending Renewal logged_in = [(2, Renewal, 481015)]"
    "pending Upgrade logged_in = [(1, Upgrade, 301005)]"
    by (simp_all add: logged_in_eq pending_def)
  from one_timer_per_kind[OF r] r p show ?thesis by simp
qed




text \<open>
  C10. When \<open>boot\<close> restores a stored, unexpired record, it hands the stored token to
  \<open>setSession\<close>, takes
  over the stored tier and expiry without any exchange, and leaves all three storage slots
  empty; \<open>loadStoredToken\<close> then finds nothing, and the next \<open>boot\<close>, whenever it runs and
  whatever the gateway answers, issues the scoped-anonymous exchange.
\<close>

theorem restore_clears_storage:
  assumes "restorable s = Some (token, expiry, ty)"
  shows "let s' = snd (boot e s) in
           fst (boot e s) = Ok () \<and>
           offered_token s' = Some token \<and> currentTokenType s' = ty \<and>
           tokenExpiry s' = Some expiry \<and>
           calls s' = calls s @ [EnsureTableFetch] \<and>
           stored_token s' = None \<and> stored_expiry s' = None \<and> stored_type s' = None \<and>
           loadStoredToken s' = None \<and>
           (\<forall>e2 d. calls (snd (boot e2 (s'\<lparr>clock := clock s' + int d\<rparr>))) =
                      calls s' @ [EnsureTableFetch, BootFetch])"
proof -
  let ?s' = "snd (boot e s)"
  have eq: "?s' = scheduleReexchange
       ((setToken e token None (ensureTenantUsersTableExists s))
          \<lparr>currentTokenType := ty, tokenExpiry := Some expiry\<rparr>)"
    using assms by (rule boot_restore)
  have st: "stored_token ?s' = None" "stored_expiry ?s' = None" "stored_type ?s' = None"
    by (simp_all add: eq setToken_def setSession_def Let_def)
  have other: "offered_token ?s' = Some token" "currentTokenType ?s' = ty"
    "tokenExpiry ?s' = Some expiry" "calls ?s' = calls s @ [EnsureTableFetch]"
    by (simp_all add: eq setToken_def setSession_def ensureTenantUsersTableExists_def
        request_def Let_def)
  have ld: "loadStoredToken ?s' = None"
    using st by (simp add: loadStoredToken_def)
  have "calls (snd (boot e2 (?s'\<lparr>clock := clock ?s' + int d\<rparr>))) =
          calls ?s' @ [EnsureTableFetch, BootFetch]" for e2 d
  proof -
    have "restorable (?s'\<lparr>clock := clock ?s' + int d\<rparr>) = None"
      using st by (simp add: restorable_empty)
    then show ?thesis using boot_calls_exchange by fastforce
  qed
  with st other ld boot_returns[of e s] show ?thesis by (simp add: Let_def)
qed

theorem restore_clears_storage_witness:
  "restorable booted = Some (''scoped-anon'', 601005, FALLBACK_ANON) \<and>
   stored_token (snd (boot gateway_down booted)) = None \<and>
   stored_expiry (snd (boot gateway_down booted)) = None \<and>
   stored_type (snd (boot gateway_down booted)) = None \<and>
   calls (snd (boot gateway_down booted)) = [EnsureTableFetch, BootFetch, EnsureTableFetch] \<and>
   calls (snd (boot gateway_up (snd (boot gateway_down booted)))) =
     [EnsureTableFetch, BootFetch, EnsureTableFetch, EnsureTableFetch, BootFetch]"
proof -
  have h: "restorable booted = Some (''scoped-anon'', 601005, FALLBACK_ANON)"
    by (simp add: booted_eq restorable_def loadStoredToken_def isTokenExpired_def)
  have c: "calls booted = [EnsureTableFetch, BootFetch]"
    by (simp add: booted_eq)
  let ?s' = "snd (boot gateway_down booted)"
  have t: "let s' = ?s' in
           fst (boot gateway_down booted) = Ok () \<and>
           offered_token s' = Some ''scoped-anon'' \<and> currentTokenType s' = FALLBACK_ANON \<and>
           tokenExpiry s' = Some 601005 \<and>
           calls s' = calls booted @ [EnsureTableFetch] \<and>
           stored_token s' = None \<and> stored_expiry s' = None \<and> stored_type s' = None \<and>
           loadStoredToken s' = None \<and>
           (\<forall>e2 d. calls (snd (boot e2 (s'\<lparr>clock := clock s' + int d\<rparr>))) =
                      calls s' @ [EnsureTableFetch, BootFetch])"
    by (rule restore_clears_storage[OF h])
  then have a: "stored_token ?s' = None" "stored_expiry ?s' = None" "stored_type ?s' = None"
    "calls ?s' = [EnsureTableFetch, BootFetch, EnsureTableFetch]"
    by (simp_all add: Let_def c)
  from t have "calls (snd (boot gateway_up (?s'\<lparr>clock := clock ?s' + int 0\<rparr>))) =
      calls ?s' @ [EnsureTableFetch, BootFetch]"
    unfolding Let_def by blast
  then have "calls (snd (boot gateway_up ?s')) =
      [EnsureTableFetch, BootFetch, EnsureTableFetch, EnsureTableFetch, BootFetch]"
    by (simp add: a)
  with h a show ?thesis by simp
qed

end
